theory Spec2Isabelle
  imports Main "HOL-Library.AList"
begin

section \<open>Values shared by the route builder and the request executor\<close>

text \<open>
  Python exceptions are values. \<open>ValueError\<close> and \<open>RuntimeError\<close> carry their message,
  \<open>KeyError\<close> the missing key. \<open>ClientResponseError\<close> is what aiohttp's
  \<open>ClientResponse.raise_for_status\<close> raises: it carries the status, the reason phrase
  (as \<open>message\<close>) and the response headers. \<open>ClientConnectionError\<close> stands for a
  transport that fails without producing a response.
\<close>

datatype py_error =
    ValueError string
  | KeyError string
  | RuntimeError string
  | ClientResponseError int string "(string \<times> string) list"
  | ClientConnectionError string

text \<open>
  What a call does: it returns a value, raises, stays suspended on an event that only
  another task can set (\<open>Suspends\<close>), or leaves the part of the standard library that
  this development transcribes (\<open>Unmodelled\<close>).
\<close>

datatype 'a outcome = Returns 'a | Raises py_error | Suspends | Unmodelled

section \<open>The request executor: \<open>HTTPClient.request\<close>\<close>

text \<open>
  \<open>datetime\<close> values are integers counting microseconds, \<open>timedelta\<close> values
  differences of them; \<open>timedelta(seconds=61)\<close> is \<open>seconds 61\<close>.
\<close>

definition seconds :: "int \<Rightarrow> int" where
  "seconds n = n * 1000000"

text \<open>
  A \<open>Route\<close> object. Its field \<open>method\<close> is \<open>http_method\<close> here, \<open>method\<close> being a
  keyword of Isabelle.
\<close>

record route =
  http_method :: string
  path :: string
  url :: string

datatype session = Session (closed: bool)

record HTTPClient =
  token :: string
  session :: "session option"
  user_agent :: string
  ratelimit_unlock :: bool
  ratelimit_reset_time :: "int option"

text \<open>
  The keyword arguments handed on to \<open>aiohttp.ClientSession.request\<close>. The endpoint
  methods use \<open>json\<close> and \<open>params\<close>; a caller of \<open>request\<close> may pass \<open>headers\<close>.
  A Python dict keeps insertion order and assigns in place, which is
  \<^const>\<open>AList.update\<close> on an association list.
\<close>

record 'j kwargs =
  kw_headers :: "(string \<times> string) list option"
  kw_json :: "'j option"
  kw_params :: "(string \<times> int) list option"

record response =
  status :: int
  reason :: string
  headers :: "(string \<times> string) list"
  body :: string

text \<open>
  The transport and the wall clock are the environment: the \<open>n\<close>-th request still to be
  issued is answered by \<open>env n\<close>, either with a response and the value \<open>datetime.now()\<close>
  has when it is received, or with a failure of the connection.
\<close>

datatype exchange = Answered response int | Failed string

text \<open>What a call does to the outside: the requests it issues and the sleeps it takes.\<close>

datatype 'j event =
    is_Sent: Sent string string "'j kwargs"
  | is_Slept: Slept int

definition HTTPClient_init :: "string \<Rightarrow> session option \<Rightarrow> string \<Rightarrow> HTTPClient" where
  "HTTPClient_init tok sess agent =
     \<lparr>token = tok, session = sess, user_agent = agent,
      ratelimit_unlock = True, ratelimit_reset_time = None\<rparr>"

definition start_session :: "HTTPClient \<Rightarrow> HTTPClient" where
  "start_session c =
     (case session c of
        None \<Rightarrow> c\<lparr>session := Some (Session False)\<rparr>
      | Some s \<Rightarrow> if closed s then c\<lparr>session := Some (Session False)\<rparr> else c)"

text \<open>
  Lines 122-123: \<open>if not self._ratelimit_reset_time or self._ratelimit_reset_time < now\<close>.
  A \<open>datetime\<close> is always truthy, so the first test is the test for \<open>None\<close>.
\<close>

definition update_reset_time :: "int option \<Rightarrow> int \<Rightarrow> int option" where
  "update_reset_time rt now =
     (case rt of
        None \<Rightarrow> Some (now + seconds 61)
      | Some d \<Rightarrow> if d < now then Some (now + seconds 61) else Some d)"

text \<open>
  aiohttp's \<open>ClientResponse.raise_for_status\<close>: it raises when \<open>ok\<close> is false, and
  \<open>ok\<close> is \<open>400 > self.status\<close>.
\<close>

definition raise_for_status :: "response \<Rightarrow> py_error option" where
  "raise_for_status r =
     (if 400 > status r then None
      else Some (ClientResponseError (status r) (reason r) (headers r)))"

text \<open>
  The body of the \<open>for\<close> loop once a response \<open>r\<close> has arrived at time \<open>now\<close>
  (lines 110-142). The result is \<open>None\<close> for \<open>continue\<close> and the outcome of the call
  otherwise, with the client afterwards and the durations of the sleeps taken.
\<close>

definition handle_response ::
    "HTTPClient \<Rightarrow> response \<Rightarrow> int \<Rightarrow> string outcome option \<times> HTTPClient \<times> int list" where
  "handle_response c r now =
     (let c1 = c\<lparr>ratelimit_reset_time := update_reset_time (ratelimit_reset_time c) now\<rparr>
      in if status r = 429 then
           (let c2 = c1\<lparr>ratelimit_unlock := False\<rparr>;
                wait_delta = the (ratelimit_reset_time c2) - now;
                c3 = c2\<lparr>ratelimit_unlock := True\<rparr>
            in (None, c3, [wait_delta]))
         else
           (case (if status r \<noteq> 200 \<and> status r \<noteq> 429 then raise_for_status r else None) of
              Some e \<Rightarrow> (Some (Raises e), c1, [])
            | None \<Rightarrow> (Some (Returns (body r)), c1, [])))"

text \<open>
  \<open>for _tries in range(5)\<close> with \<open>n\<close> iterations left; after the loop the
  \<open>RuntimeError\<close> of lines 143-144.
\<close>

fun attempts ::
    "nat \<Rightarrow> (nat \<Rightarrow> exchange) \<Rightarrow> HTTPClient \<Rightarrow> string \<Rightarrow> string \<Rightarrow> 'j kwargs
       \<Rightarrow> string outcome \<times> HTTPClient \<times> 'j event list" where
  "attempts 0 env c m u kw = (Raises (RuntimeError ''Unreachable code in HTTP handling.''), c, [])"
| "attempts (Suc n) env c m u kw =
     (case env 0 of
        Failed msg \<Rightarrow> (Raises (ClientConnectionError msg), c, [Sent m u kw])
      | Answered r now \<Rightarrow>
          (case handle_response c r now of
             (Some res, c', sleeps) \<Rightarrow> (res, c', Sent m u kw # map Slept sleeps)
           | (None, c', sleeps) \<Rightarrow>
               (case attempts n (\<lambda>i. env (Suc i)) c' m u kw of
                  (res, c'', evs) \<Rightarrow> (res, c'', Sent m u kw # map Slept sleeps @ evs))))"

text \<open>
  \<open>HTTPClient.request\<close> (lines 95-144). A call that finds the gate closed waits for
  another call to set it; taken alone it stays suspended.
\<close>

definition request ::
    "(nat \<Rightarrow> exchange) \<Rightarrow> HTTPClient \<Rightarrow> route \<Rightarrow> 'j kwargs
       \<Rightarrow> string outcome \<times> HTTPClient \<times> 'j event list" where
  "request env c rt kw =
     (let hs = (case kw_headers kw of None \<Rightarrow> [] | Some h \<Rightarrow> h);
          hs1 = AList.update ''User-Agent'' (user_agent c) hs;
          hs2 = AList.update ''Authorization'' (token c) hs1;
          kw' = kw\<lparr>kw_headers := Some hs2\<rparr>;
          c' = start_session c
      in if \<not> ratelimit_unlock c' then (Suspends, c', [])
         else attempts 5 env c' (http_method rt) (url rt) kw')"

text \<open>
  The times at which the responses of one call of up to \<open>n\<close> attempts arrive: the loop goes
  on to a next request only after a 429, and a request that fails brings no response.
\<close>

fun arrivals :: "nat \<Rightarrow> (nat \<Rightarrow> exchange) \<Rightarrow> int list" where
  "arrivals 0 env = []"
| "arrivals (Suc n) env =
     (case env 0 of
        Failed msg \<Rightarrow> []
      | Answered r now \<Rightarrow> now # (if status r = 429 then arrivals n (\<lambda>i. env (Suc i)) else []))"

section \<open>Concrete clients, routes and transports for the scenarios\<close>

text \<open>
  \<open>replies xs\<close> is a transport that answers the requests in turn from \<open>xs\<close> and loses the
  connection afterwards; \<open>sent_kwargs c kw\<close> names the keyword arguments that lines 98-101
  build from the caller's \<open>kw\<close>.
\<close>

definition replies :: "exchange list \<Rightarrow> nat \<Rightarrow> exchange" where
  "replies xs n = (if n < length xs then xs ! n else Failed ''connection lost'')"

definition sent_kwargs :: "HTTPClient \<Rightarrow> 'j kwargs \<Rightarrow> 'j kwargs" where
  "sent_kwargs c kw = kw\<lparr>kw_headers := Some (AList.update ''Authorization'' (token c)
      (AList.update ''User-Agent'' (user_agent c) (case kw_headers kw of None \<Rightarrow> [] | Some h \<Rightarrow> h)))\<rparr>"

definition demo_client :: HTTPClient where
  "demo_client = HTTPClient_init ''secret'' None ''Tatsu''"

definition demo_route :: route where
  "demo_route = \<lparr>http_method = ''GET'', path = ''users/1/profile'', url = ''https://api.tatsu.gg/v1/users/1/profile''\<rparr>"

definition no_kwargs :: "unit kwargs" where
  "no_kwargs = \<lparr>kw_headers = None, kw_json = None, kw_params = None\<rparr>"

definition reply :: "int \<Rightarrow> string \<Rightarrow> response" where
  "reply st b = \<lparr>status = st, reason = '''', headers = [], body = b\<rparr>"

definition full_reply :: "int \<Rightarrow> string \<Rightarrow> (string \<times> string) list \<Rightarrow> string \<Rightarrow> response" where
  "full_reply st rs hs b = \<lparr>status = st, reason = rs, headers = hs, body = b\<rparr>"

section \<open>Facts about the executor\<close>

lemma request_open:
  "ratelimit_unlock c \<Longrightarrow> request env c rt kw = attempts 5 env (start_session c) (http_method rt) (url rt) (sent_kwargs c kw)"
  by (simp add: request_def sent_kwargs_def start_session_def Let_def split: option.splits)

lemma request_closed:
  "\<not> ratelimit_unlock c \<Longrightarrow> request env c rt kw = (Suspends, start_session c, [])"
  by (simp add: request_def start_session_def Let_def split: option.splits)

lemma start_session_fields [simp]:
  "ratelimit_unlock (start_session c) = ratelimit_unlock c"
  "ratelimit_reset_time (start_session c) = ratelimit_reset_time c"
  "token (start_session c) = token c"
  "user_agent (start_session c) = user_agent c"
  by (simp_all add: start_session_def split: option.splits)

lemma handle_429:
  "status r = 429 \<Longrightarrow> handle_response c r now =
    (None, c\<lparr>ratelimit_reset_time := update_reset_time (ratelimit_reset_time c) now, ratelimit_unlock := True\<rparr>,
     [the (update_reset_time (ratelimit_reset_time c) now) - now])"
  by (simp add: handle_response_def Let_def)

lemma handle_200:
  "status r = 200 \<Longrightarrow> handle_response c r now =
    (Some (Returns (body r)), c\<lparr>ratelimit_reset_time := update_reset_time (ratelimit_reset_time c) now\<rparr>, [])"
  by (simp add: handle_response_def Let_def)

lemma attempts_events:
  "set (snd (snd (attempts n env c m u kw))) \<subseteq> insert (Sent m u kw) (range Slept)"
proof (induction n arbitrary: env c)
  case 0
  show ?case by simp
next
  case (Suc n)
  show ?case
  proof (cases "env 0")
    case (Failed msg)
    then show ?thesis by simp
  next
    case (Answered r now)
    show ?thesis
    proof (cases "status r = 429")
      case True
      obtain res c'' evs' where a: "attempts n (\<lambda>i. env (Suc i))
          (c\<lparr>ratelimit_reset_time := update_reset_time (ratelimit_reset_time c) now, ratelimit_unlock := True\<rparr>)
          m u kw = (res, c'', evs')"
        by (metis prod_cases3)
      from Suc.IH [of "\<lambda>i. env (Suc i)"
          "c\<lparr>ratelimit_reset_time := update_reset_time (ratelimit_reset_time c) now, ratelimit_unlock := True\<rparr>"] a
      have "set evs' \<subseteq> insert (Sent m u kw) (range Slept)" by simp
      with Answered True a show ?thesis by (auto simp add: handle_429)
    next
      case False
      with Answered show ?thesis
        by (auto simp add: handle_response_def Let_def split: option.splits)
    qed
  qed
qed

lemma attempts_all_429:
  "(\<And>i. i < n \<Longrightarrow> \<exists>r t. env i = Answered r t \<and> status r = 429) \<Longrightarrow>
   fst (attempts n env c m u kw) = Raises (RuntimeError ''Unreachable code in HTTP handling.'')
   \<and> length (filter is_Sent (snd (snd (attempts n env c m u kw)))) = n
   \<and> length (filter is_Slept (snd (snd (attempts n env c m u kw)))) = n"
proof (induction n arbitrary: env c)
  case 0
  show ?case by simp
next
  case (Suc n)
  from Suc.prems [of 0] obtain r t where e: "env 0 = Answered r t" "status r = 429" by auto
  have "\<And>i. i < n \<Longrightarrow> \<exists>r t. env (Suc i) = Answered r t \<and> status r = 429"
    using Suc.prems by simp
  from Suc.IH [of "\<lambda>i. env (Suc i)"
      "c\<lparr>ratelimit_reset_time := update_reset_time (ratelimit_reset_time c) t, ratelimit_unlock := True\<rparr>",
      OF this] e
  show ?case
    by (auto simp add: handle_429 split: prod.splits)
qed

lemma attempts_RuntimeError:
  "fst (attempts n env c m u kw) = Raises (RuntimeError msg) \<Longrightarrow>
   i < n \<Longrightarrow> \<exists>r t. env i = Answered r t \<and> status r = 429"
proof (induction n arbitrary: env c i)
  case 0
  then show ?case by simp
next
  case (Suc n)
  show ?case
  proof (cases "env 0")
    case (Failed x)
    with Suc.prems show ?thesis by simp
  next
    case (Answered r now)
    show ?thesis
    proof (cases "status r = 429")
      case False
      with Answered Suc.prems show ?thesis
        by (auto simp add: handle_response_def Let_def raise_for_status_def
             split: option.splits if_splits)
    next
      case True
      with Answered Suc.prems(1)
      have a: "fst (attempts n (\<lambda>i. env (Suc i))
           (c\<lparr>ratelimit_reset_time := update_reset_time (ratelimit_reset_time c) now, ratelimit_unlock := True\<rparr>)
           m u kw) = Raises (RuntimeError msg)"
        by (simp add: handle_429 split: prod.splits)
      show ?thesis
      proof (cases i)
        case 0
        with Answered True show ?thesis by simp
      next
        case (Suc j)
        with Suc.prems(2) have "j < n" by simp
        from Suc.IH [OF a this] Suc show ?thesis by simp
      qed
    qed
  qed
qed

lemma handle_other:
  "status r \<noteq> 429 \<Longrightarrow> handle_response c r now =
    (Some (if 400 \<le> status r then Raises (ClientResponseError (status r) (reason r) (headers r))
           else Returns (body r)),
     c\<lparr>ratelimit_reset_time := update_reset_time (ratelimit_reset_time c) now\<rparr>, [])"
  by (simp add: handle_response_def Let_def raise_for_status_def)

lemma attempts_reset_time:
  "ratelimit_reset_time (fst (snd (attempts n env c m u kw)))
     = foldl update_reset_time (ratelimit_reset_time c) (arrivals n env)"
proof (induction n arbitrary: env c)
  case 0
  show ?case by simp
next
  case (Suc n)
  show ?case
  proof (cases "env 0")
    case (Failed msg)
    then show ?thesis by simp
  next
    case (Answered r now)
    show ?thesis
    proof (cases "status r = 429")
      case True
      from Suc.IH [of "\<lambda>i. env (Suc i)"
          "c\<lparr>ratelimit_reset_time := update_reset_time (ratelimit_reset_time c) now, ratelimit_unlock := True\<rparr>"]
        Answered True
      show ?thesis by (auto simp add: handle_429 split: prod.splits)
    next
      case False
      with Answered show ?thesis by (simp add: handle_other)
    qed
  qed
qed

lemma foldl_valid_deadline:
  "list_all (\<lambda>t. \<not> d < t) ts \<Longrightarrow> foldl update_reset_time (Some d) ts = Some d"
  by (induction ts) (simp_all add: update_reset_time_def)

lemma arrivals_env:
  "t \<in> set (arrivals n env) \<Longrightarrow> \<exists>i<n. \<exists>r. env i = Answered r t"
proof (induction n arbitrary: env)
  case 0
  then show ?case by simp
next
  case (Suc n)
  show ?case
  proof (cases "env 0")
    case (Failed msg)
    with Suc.prems show ?thesis by simp
  next
    case (Answered r now)
    show ?thesis
    proof (cases "t = now")
      case True
      with Answered show ?thesis by auto
    next
      case False
      with Answered Suc.prems have "t \<in> set (arrivals n (\<lambda>i. env (Suc i)))"
        by (simp split: if_splits)
      from Suc.IH [OF this] show ?thesis by auto
    qed
  qed
qed

lemma attempts_final:
  "k < n \<Longrightarrow> (\<And>i. i < k \<Longrightarrow> \<exists>r t. env i = Answered r t \<and> status r = 429) \<Longrightarrow>
   env k = Answered r now \<Longrightarrow> status r \<noteq> 429 \<Longrightarrow>
   fst (attempts n env c m u kw)
     = (if 400 \<le> status r then Raises (ClientResponseError (status r) (reason r) (headers r))
        else Returns (body r))
   \<and> length (filter is_Sent (snd (snd (attempts n env c m u kw)))) = Suc k
   \<and> length (filter is_Slept (snd (snd (attempts n env c m u kw)))) = k
   \<and> last (snd (snd (attempts n env c m u kw))) = Sent m u kw"
proof (induction k arbitrary: n env c)
  case 0
  then obtain n' where "n = Suc n'" by (cases n) simp_all
  with 0 show ?case by (simp add: handle_other)
next
  case (Suc k)
  then obtain n' where n: "n = Suc n'" and k: "k < n'" by (cases n) simp_all
  from Suc.prems(2) [of 0] obtain r0 t0 where e: "env 0 = Answered r0 t0" "status r0 = 429"
    by auto
  have "\<And>i. i < k \<Longrightarrow> \<exists>r t. env (Suc i) = Answered r t \<and> status r = 429"
    using Suc.prems(2) by simp
  from Suc.IH [of n' "\<lambda>i. env (Suc i)"
      "c\<lparr>ratelimit_reset_time := update_reset_time (ratelimit_reset_time c) t0, ratelimit_unlock := True\<rparr>",
      OF k this Suc.prems(3) Suc.prems(4)] e n
  show ?case
    by (auto simp add: handle_429 split: prod.splits)
qed

section \<open>The claims about the executor\<close>

text \<open>
  C1. When the transport answers one call with the statuses 429, 429 and 200 and the gate
  is open when the call starts, the call issues exactly three requests, sleeps exactly
  twice, each time for the reset deadline in force at that response minus the time of
  that response, and returns the body of the third response.
\<close>

theorem request_429_429_200:
  assumes "ratelimit_unlock c"
    and "env 0 = Answered r1 t1" and "env 1 = Answered r2 t2" and "env 2 = Answered r3 t3"
    and "status r1 = 429" and "status r2 = 429" and "status r3 = 200"
  shows "\<exists>c'. request env c rt kw =
           (Returns (body r3), c',
            [Sent (http_method rt) (url rt) (sent_kwargs c kw),
             Slept (the (update_reset_time (ratelimit_reset_time c) t1) - t1),
             Sent (http_method rt) (url rt) (sent_kwargs c kw),
             Slept (the (update_reset_time (update_reset_time (ratelimit_reset_time c) t1) t2) - t2),
             Sent (http_method rt) (url rt) (sent_kwargs c kw)])"
  using assms
  by (simp add: request_open numeral_eq_Suc handle_429 handle_200)

theorem request_429_429_200_witness:
  "fst (request (replies [Answered (reply 429 ''slow down'') (seconds 1),
                          Answered (reply 429 ''slow down'') (seconds 63),
                          Answered (reply 200 ''{}'') (seconds 125)]) demo_client demo_route no_kwargs)
     = Returns ''{}''
   \<and> snd (snd (request (replies [Answered (reply 429 ''slow down'') (seconds 1),
                          Answered (reply 429 ''slow down'') (seconds 63),
                          Answered (reply 200 ''{}'') (seconds 125)]) demo_client demo_route no_kwargs))
     = [Sent ''GET'' ''https://api.tatsu.gg/v1/users/1/profile'' (sent_kwargs demo_client no_kwargs),
        Slept (seconds 61),
        Sent ''GET'' ''https://api.tatsu.gg/v1/users/1/profile'' (sent_kwargs demo_client no_kwargs),
        Slept (seconds 61),
        Sent ''GET'' ''https://api.tatsu.gg/v1/users/1/profile'' (sent_kwargs demo_client no_kwargs)]"
  using request_429_429_200 [of demo_client
      "replies [Answered (reply 429 ''slow down'') (seconds 1),
                Answered (reply 429 ''slow down'') (seconds 63),
                Answered (reply 200 ''{}'') (seconds 125)]"
      "reply 429 ''slow down''" "seconds 1" "reply 429 ''slow down''" "seconds 63"
      "reply 200 ''{}''" "seconds 125" demo_route no_kwargs]
  by (auto simp add: replies_def reply_def demo_client_def HTTPClient_init_def demo_route_def
       update_reset_time_def seconds_def)


text \<open>
  C2. The deadline that a call leaves in the client is the deadline it found, taken
  through the responses the call received in their order: a response at time \<open>now\<close> puts
  \<open>now\<close> plus 61 seconds in the place of a missing deadline or of one that lies before
  \<open>now\<close>, and leaves every other deadline as it is. So a deadline that no response of the
  call arrives after is still there when the call ends, and a first response at time \<open>T\<close>
  that finds no deadline, or an expired one, sets \<open>T\<close> plus 61 seconds. With that deadline
  in force, a call answered with 429 at \<open>T\<close> plus 10 seconds sleeps for the 51 seconds
  left to the old deadline and keeps it, and a call answered with 429 at \<open>T\<close> plus 70
  seconds sleeps for 61 seconds, the new deadline being \<open>T\<close> plus 131 seconds; in both
  cases the response that ends the call, at time \<open>t2\<close>, replaces the deadline only when it
  arrives after it.
\<close>

theorem reset_time_replaced_only_when_expired:
  assumes "ratelimit_unlock c"
  shows "ratelimit_reset_time (fst (snd (request env c rt kw)))
           = foldl (\<lambda>d now. case d of
                                None \<Rightarrow> Some (now + seconds 61)
                              | Some t \<Rightarrow> if t < now then Some (now + seconds 61) else Some t)
               (ratelimit_reset_time c) (arrivals 5 env)
       \<and> (ratelimit_reset_time c = Some d \<and> (\<forall>i<5. \<forall>r t. env i = Answered r t \<longrightarrow> \<not> d < t) \<longrightarrow>
            ratelimit_reset_time (fst (snd (request env c rt kw))) = Some d)
       \<and> ((case ratelimit_reset_time c of None \<Rightarrow> True | Some d0 \<Rightarrow> d0 < T)
            \<and> env 0 = Answered r0 T \<and> status r0 \<noteq> 429 \<longrightarrow>
            ratelimit_reset_time (fst (snd (request env c rt kw))) = Some (T + seconds 61))
       \<and> (ratelimit_reset_time c = Some (T + seconds 61)
            \<and> env 0 = Answered r1 (T + seconds 10) \<and> status r1 = 429
            \<and> env 1 = Answered r2 t2 \<and> status r2 \<noteq> 429 \<longrightarrow>
            take 2 (snd (snd (request env c rt kw)))
              = [Sent (http_method rt) (url rt) (sent_kwargs c kw), Slept (seconds 51)]
            \<and> ratelimit_reset_time (fst (snd (request env c rt kw)))
              = (if T + seconds 61 < t2 then Some (t2 + seconds 61) else Some (T + seconds 61)))
       \<and> (ratelimit_reset_time c = Some (T + seconds 61)
            \<and> env 0 = Answered r1 (T + seconds 70) \<and> status r1 = 429
            \<and> env 1 = Answered r2 t2 \<and> status r2 \<noteq> 429 \<longrightarrow>
            take 2 (snd (snd (request env c rt kw)))
              = [Sent (http_method rt) (url rt) (sent_kwargs c kw), Slept (seconds 61)]
            \<and> ratelimit_reset_time (fst (snd (request env c rt kw)))
              = (if T + seconds 131 < t2 then Some (t2 + seconds 61) else Some (T + seconds 131)))"
proof -
  have u: "(\<lambda>d now. case d of None \<Rightarrow> Some (now + seconds 61)
                     | Some t \<Rightarrow> if t < now then Some (now + seconds 61) else Some t)
           = update_reset_time"
    by (intro ext) (simp add: update_reset_time_def)
  have a: "ratelimit_reset_time (fst (snd (request env c rt kw)))
             = foldl update_reset_time (ratelimit_reset_time c) (arrivals 5 env)"
    using assms by (simp add: request_open attempts_reset_time)
  have b: "ratelimit_reset_time (fst (snd (request env c rt kw))) = Some d"
    if "ratelimit_reset_time c = Some d" and "\<forall>i<5. \<forall>r t. env i = Answered r t \<longrightarrow> \<not> d < t"
  proof -
    have "list_all (\<lambda>t. \<not> d < t) (arrivals 5 env)"
      using that(2) by (auto simp add: list_all_iff dest!: arrivals_env)
    with a that(1) show ?thesis by (simp add: foldl_valid_deadline)
  qed
  have c0: "ratelimit_reset_time (fst (snd (request env c rt kw))) = Some (T + seconds 61)"
    if "case ratelimit_reset_time c of None \<Rightarrow> True | Some d0 \<Rightarrow> d0 < T"
      and "env 0 = Answered r0 T" and "status r0 \<noteq> 429"
    using that a
    by (simp add: numeral_eq_Suc update_reset_time_def split: option.splits)
  have c1: "take 2 (snd (snd (request env c rt kw)))
              = [Sent (http_method rt) (url rt) (sent_kwargs c kw), Slept (seconds 51)]
            \<and> ratelimit_reset_time (fst (snd (request env c rt kw)))
              = (if T + seconds 61 < t2 then Some (t2 + seconds 61) else Some (T + seconds 61))"
    if "ratelimit_reset_time c = Some (T + seconds 61)"
      and "env 0 = Answered r1 (T + seconds 10)" and "status r1 = 429"
      and "env 1 = Answered r2 t2" and "status r2 \<noteq> 429"
    using that assms
    by (simp add: request_open numeral_eq_Suc handle_429 handle_other update_reset_time_def
          seconds_def)
  have c2: "take 2 (snd (snd (request env c rt kw)))
              = [Sent (http_method rt) (url rt) (sent_kwargs c kw), Slept (seconds 61)]
            \<and> ratelimit_reset_time (fst (snd (request env c rt kw)))
              = (if T + seconds 131 < t2 then Some (t2 + seconds 61) else Some (T + seconds 131))"
    if "ratelimit_reset_time c = Some (T + seconds 61)"
      and "env 0 = Answered r1 (T + seconds 70)" and "status r1 = 429"
      and "env 1 = Answered r2 t2" and "status r2 \<noteq> 429"
    using that assms
    by (simp add: request_open numeral_eq_Suc handle_429 handle_other update_reset_time_def
          seconds_def)
  from a b c0 c1 c2 show ?thesis
    unfolding u by blast
qed

theorem reset_time_replaced_only_when_expired_witness:
  "ratelimit_reset_time (fst (snd (request
      (replies [Answered (reply 200 ''{}'') (seconds 5)])
      demo_client demo_route no_kwargs))) = Some (seconds 66)
   \<and> snd (snd (request
      (replies [Answered (reply 429 ''slow down'') (seconds 15), Answered (reply 200 ''{}'') (seconds 66)])
      (demo_client\<lparr>ratelimit_reset_time := Some (seconds 66)\<rparr>) demo_route no_kwargs))
     = [Sent ''GET'' ''https://api.tatsu.gg/v1/users/1/profile'' (sent_kwargs demo_client no_kwargs),
        Slept (seconds 51),
        Sent ''GET'' ''https://api.tatsu.gg/v1/users/1/profile'' (sent_kwargs demo_client no_kwargs)]
   \<and> ratelimit_reset_time (fst (snd (request
      (replies [Answered (reply 429 ''slow down'') (seconds 15), Answered (reply 200 ''{}'') (seconds 66)])
      (demo_client\<lparr>ratelimit_reset_time := Some (seconds 66)\<rparr>) demo_route no_kwargs))) = Some (seconds 66)
   \<and> snd (snd (request
      (replies [Answered (reply 429 ''slow down'') (seconds 75), Answered (reply 200 ''{}'') (seconds 136)])
      (demo_client\<lparr>ratelimit_reset_time := Some (seconds 66)\<rparr>) demo_route no_kwargs))
     = [Sent ''GET'' ''https://api.tatsu.gg/v1/users/1/profile'' (sent_kwargs demo_client no_kwargs),
        Slept (seconds 61),
        Sent ''GET'' ''https://api.tatsu.gg/v1/users/1/profile'' (sent_kwargs demo_client no_kwargs)]
   \<and> ratelimit_reset_time (fst (snd (request
      (replies [Answered (reply 429 ''slow down'') (seconds 75), Answered (reply 200 ''{}'') (seconds 136)])
      (demo_client\<lparr>ratelimit_reset_time := Some (seconds 66)\<rparr>) demo_route no_kwargs))) = Some (seconds 136)"
  using reset_time_replaced_only_when_expired
      [where c = demo_client and env = "replies [Answered (reply 200 ''{}'') (seconds 5)]"
         and T = "seconds 5" and ?r0.0 = "reply 200 ''{}''" and rt = demo_route and kw = no_kwargs]
    reset_time_replaced_only_when_expired
      [where c = "demo_client\<lparr>ratelimit_reset_time := Some (seconds 66)\<rparr>"
         and env = "replies [Answered (reply 429 ''slow down'') (seconds 15), Answered (reply 200 ''{}'') (seconds 66)]"
         and T = "seconds 5" and ?r1.0 = "reply 429 ''slow down''" and ?r2.0 = "reply 200 ''{}''"
         and ?t2.0 = "seconds 66" and rt = demo_route and kw = no_kwargs]
    reset_time_replaced_only_when_expired
      [where c = "demo_client\<lparr>ratelimit_reset_time := Some (seconds 66)\<rparr>"
         and env = "replies [Answered (reply 429 ''slow down'') (seconds 75), Answered (reply 200 ''{}'') (seconds 136)]"
         and T = "seconds 5" and ?r1.0 = "reply 429 ''slow down''" and ?r2.0 = "reply 200 ''{}''"
         and ?t2.0 = "seconds 136" and rt = demo_route and kw = no_kwargs]
  by (simp add: request_open replies_def reply_def demo_client_def HTTPClient_init_def demo_route_def
        numeral_eq_Suc handle_429 handle_other update_reset_time_def seconds_def sent_kwargs_def
        no_kwargs_def)

text \<open>
  C3, as stated, fails twice. A response with status 201 is neither 200 nor 429, and the
  call returns its body, because \<open>raise_for_status\<close> raises only from status 400 on. And
  the error raised for a 403 carries the status, the reason phrase and the headers of the
  response: its body is not in it.
\<close>

theorem status_201_returns_and_error_omits_body:
  "fst (request (replies [Answered (reply 201 ''{}'') (seconds 1)])
          demo_client demo_route no_kwargs) = Returns ''{}''
   \<and> fst (request (replies [Answered (full_reply 403 ''Forbidden''
                                 [(''Content-Type'', ''application/json'')] ''missing permissions'')
                               (seconds 1)])
          demo_client demo_route no_kwargs)
     = Raises (ClientResponseError 403 ''Forbidden'' [(''Content-Type'', ''application/json'')])"
  by (simp add: request_open demo_client_def HTTPClient_init_def numeral_eq_Suc replies_def
       reply_def full_reply_def handle_other)

text \<open>
  C3, amended. Let the first \<open>k\<close> requests of a call be answered with 429 and the next one
  with a response \<open>r\<close>. If the status of \<open>r\<close> is at least 400 and not 429, the call raises
  the \<open>ClientResponseError\<close> that carries the status, the reason phrase and the headers
  of \<open>r\<close>; if it is below 400, the call returns the body of \<open>r\<close>. In both cases \<open>r\<close> ends
  the call: its request is the last event, \<open>k + 1\<close> requests were issued and \<open>k\<close> sleeps
  taken, so that a first response of this kind makes the call consist of one request.
\<close>

theorem error_status_fails_without_retry:
  assumes "ratelimit_unlock c" and "k < 5"
    and "\<forall>i<k. \<exists>r' t. env i = Answered r' t \<and> status r' = 429"
    and "env k = Answered r now"
  shows "(400 \<le> status r \<and> status r \<noteq> 429 \<longrightarrow>
            fst (request env c rt kw)
              = Raises (ClientResponseError (status r) (reason r) (headers r)))
       \<and> (status r < 400 \<longrightarrow> fst (request env c rt kw) = Returns (body r))
       \<and> (status r \<noteq> 429 \<longrightarrow>
            length (filter is_Sent (snd (snd (request env c rt kw)))) = k + 1
          \<and> length (filter is_Slept (snd (snd (request env c rt kw)))) = k
          \<and> last (snd (snd (request env c rt kw)))
              = Sent (http_method rt) (url rt) (sent_kwargs c kw))
       \<and> (status r \<noteq> 429 \<and> k = 0 \<longrightarrow>
            snd (snd (request env c rt kw)) = [Sent (http_method rt) (url rt) (sent_kwargs c kw)])"
proof (cases "status r = 429")
  case True
  then show ?thesis by simp
next
  case False
  have "\<And>i. i < k \<Longrightarrow> \<exists>r' t. env i = Answered r' t \<and> status r' = 429"
    using assms(3) by simp
  from attempts_final [of k 5 env r now "start_session c" "http_method rt" "url rt" "sent_kwargs c kw",
      OF assms(2) this assms(4) False]
  have f: "fst (request env c rt kw)
             = (if 400 \<le> status r then Raises (ClientResponseError (status r) (reason r) (headers r))
                else Returns (body r))"
    and s: "length (filter is_Sent (snd (snd (request env c rt kw)))) = Suc k"
    and w: "length (filter is_Slept (snd (snd (request env c rt kw)))) = k"
    and l: "last (snd (snd (request env c rt kw))) = Sent (http_method rt) (url rt) (sent_kwargs c kw)"
    using assms(1) by (simp_all add: request_open)
  have one: "snd (snd (request env c rt kw)) = [Sent (http_method rt) (url rt) (sent_kwargs c kw)]"
    if "k = 0"
    using that assms(1,4) False by (simp add: request_open numeral_eq_Suc handle_other)
  from f s w l one False show ?thesis by simp
qed

theorem error_status_fails_without_retry_witness:
  "request (replies [Answered (full_reply 403 ''Forbidden''
                        [(''Content-Type'', ''application/json'')] ''missing permissions'') (seconds 1)])
      demo_client demo_route no_kwargs
     = (Raises (ClientResponseError 403 ''Forbidden'' [(''Content-Type'', ''application/json'')]),
        (start_session demo_client)\<lparr>ratelimit_reset_time := Some (seconds 62)\<rparr>,
        [Sent ''GET'' ''https://api.tatsu.gg/v1/users/1/profile'' (sent_kwargs demo_client no_kwargs)])
   \<and> fst (request (replies [Answered (reply 429 ''slow down'') (seconds 1),
                            Answered (full_reply 404 ''Not Found'' [(''Server'', ''tatsu'')] ''no such user'')
                              (seconds 62)])
      demo_client demo_route no_kwargs)
     = Raises (ClientResponseError 404 ''Not Found'' [(''Server'', ''tatsu'')])
   \<and> length (filter is_Sent (snd (snd (request (replies [Answered (reply 429 ''slow down'') (seconds 1),
                            Answered (full_reply 404 ''Not Found'' [(''Server'', ''tatsu'')] ''no such user'')
                              (seconds 62)])
      demo_client demo_route no_kwargs)))) = 2
   \<and> length (filter is_Slept (snd (snd (request (replies [Answered (reply 429 ''slow down'') (seconds 1),
                            Answered (full_reply 404 ''Not Found'' [(''Server'', ''tatsu'')] ''no such user'')
                              (seconds 62)])
      demo_client demo_route no_kwargs)))) = 1"
  using error_status_fails_without_retry
      [where c = demo_client and k = 0
         and env = "replies [Answered (full_reply 403 ''Forbidden''
                        [(''Content-Type'', ''application/json'')] ''missing permissions'') (seconds 1)]"
         and r = "full_reply 403 ''Forbidden'' [(''Content-Type'', ''application/json'')] ''missing permissions''"
         and now = "seconds 1" and rt = demo_route and kw = no_kwargs]
    error_status_fails_without_retry
      [where c = demo_client and k = 1
         and env = "replies [Answered (reply 429 ''slow down'') (seconds 1),
                            Answered (full_reply 404 ''Not Found'' [(''Server'', ''tatsu'')] ''no such user'')
                              (seconds 62)]"
         and r = "full_reply 404 ''Not Found'' [(''Server'', ''tatsu'')] ''no such user''"
         and now = "seconds 62" and rt = demo_route and kw = no_kwargs]
  by (simp add: request_open replies_def reply_def full_reply_def demo_client_def HTTPClient_init_def
        demo_route_def numeral_eq_Suc handle_429 handle_other update_reset_time_def seconds_def
        sent_kwargs_def no_kwargs_def start_session_def)

text \<open>
  C7. Every request a call issues carries a headers mapping in which \<open>User-Agent\<close> is the
  client's user agent and \<open>Authorization\<close> is its token, whatever the caller supplied
  under these two keys, and in which every other key has the caller's value.
\<close>

theorem required_headers_always_sent:
  assumes "Sent m u kw' \<in> set (snd (snd (request env c rt kw)))"
  shows "\<exists>hs. kw_headers kw' = Some hs
           \<and> map_of hs ''User-Agent'' = Some (user_agent c)
           \<and> map_of hs ''Authorization'' = Some (token c)
           \<and> (\<forall>k. k \<noteq> ''User-Agent'' \<and> k \<noteq> ''Authorization'' \<longrightarrow>
                  map_of hs k = map_of (case kw_headers kw of None \<Rightarrow> [] | Some h \<Rightarrow> h) k)"
proof (cases "ratelimit_unlock c")
  case False
  with assms show ?thesis by (simp add: request_closed)
next
  case True
  with assms attempts_events [of 5 env "start_session c" "http_method rt" "url rt" "sent_kwargs c kw"]
  have "kw' = sent_kwargs c kw"
    by (auto simp add: request_open)
  then show ?thesis
    by (simp add: sent_kwargs_def update_conv')
qed

theorem required_headers_always_sent_witness:
  "Sent ''GET'' ''https://api.tatsu.gg/v1/users/1/profile''
     \<lparr>kw_headers = Some [(''Accept'', ''application/json''), (''User-Agent'', ''Tatsu''),
                          (''Authorization'', ''secret'')],
      kw_json = None, kw_params = None\<rparr>
     \<in> set (snd (snd (request (replies [Answered (reply 200 ''{}'') (seconds 1)]) demo_client demo_route
           \<lparr>kw_headers = Some [(''Accept'', ''application/json''), (''User-Agent'', ''curl'')],
            kw_json = None :: unit option, kw_params = None\<rparr>)))
   \<and> (\<exists>hs. Some [(''Accept'', ''application/json''), (''User-Agent'', ''Tatsu''),
                  (''Authorization'', ''secret'')] = Some hs
          \<and> map_of hs ''User-Agent'' = Some ''Tatsu''
          \<and> map_of hs ''Authorization'' = Some ''secret''
          \<and> map_of hs ''Accept'' = Some ''application/json'')"
proof -
  have h: "Sent ''GET'' ''https://api.tatsu.gg/v1/users/1/profile''
     \<lparr>kw_headers = Some [(''Accept'', ''application/json''), (''User-Agent'', ''Tatsu''),
                          (''Authorization'', ''secret'')],
      kw_json = None, kw_params = None\<rparr>
     \<in> set (snd (snd (request (replies [Answered (reply 200 ''{}'') (seconds 1)]) demo_client demo_route
           \<lparr>kw_headers = Some [(''Accept'', ''application/json''), (''User-Agent'', ''curl'')],
            kw_json = None :: unit option, kw_params = None\<rparr>)))"
    by (simp add: request_open demo_client_def HTTPClient_init_def demo_route_def
         numeral_eq_Suc replies_def reply_def handle_200 sent_kwargs_def)
  from required_headers_always_sent [OF h] h show ?thesis
    by (simp add: demo_client_def HTTPClient_init_def)
qed

text \<open>
  C8. When the gate is open and each of the five requests of one call is answered with
  status 429, the call issues five requests, sleeps five times and raises the
  \<open>RuntimeError\<close> of line 144: it does not return, and what it raises is neither the
  \<open>ClientResponseError\<close> of a failed response nor the \<open>ValueError\<close> of a rejected
  argument. Five answers of 429 are also the only way to that \<open>RuntimeError\<close>.
\<close>

theorem five_429_raise_RuntimeError:
  assumes "ratelimit_unlock c"
  shows "((\<forall>i<5. \<exists>r t. env i = Answered r t \<and> status r = 429) \<longrightarrow>
            fst (request env c rt kw) = Raises (RuntimeError ''Unreachable code in HTTP handling.'')
          \<and> length (filter is_Sent (snd (snd (request env c rt kw)))) = 5
          \<and> length (filter is_Slept (snd (snd (request env c rt kw)))) = 5
          \<and> (\<forall>b. fst (request env c rt kw) \<noteq> Returns b)
          \<and> (\<forall>s m h. fst (request env c rt kw) \<noteq> Raises (ClientResponseError s m h))
          \<and> (\<forall>m. fst (request env c rt kw) \<noteq> Raises (ValueError m)))
       \<and> ((\<exists>msg. fst (request env c rt kw) = Raises (RuntimeError msg)) \<longrightarrow>
            (\<forall>i<5. \<exists>r t. env i = Answered r t \<and> status r = 429))"
proof (intro conjI impI)
  assume a: "\<forall>i<5. \<exists>r t. env i = Answered r t \<and> status r = 429"
  then have "\<And>i. i < 5 \<Longrightarrow> \<exists>r t. env i = Answered r t \<and> status r = 429"
    by simp
  from attempts_all_429 [of 5 env "start_session c" "http_method rt" "url rt" "sent_kwargs c kw", OF this]
  have r: "fst (request env c rt kw) = Raises (RuntimeError ''Unreachable code in HTTP handling.'')"
    and "length (filter is_Sent (snd (snd (request env c rt kw)))) = 5"
    and "length (filter is_Slept (snd (snd (request env c rt kw)))) = 5"
    using assms by (simp_all add: request_open)
  then show "fst (request env c rt kw) = Raises (RuntimeError ''Unreachable code in HTTP handling.'')"
    and "length (filter is_Sent (snd (snd (request env c rt kw)))) = 5"
    and "length (filter is_Slept (snd (snd (request env c rt kw)))) = 5"
    by simp_all
  from r show "\<forall>b. fst (request env c rt kw) \<noteq> Returns b"
    and "\<forall>s m h. fst (request env c rt kw) \<noteq> Raises (ClientResponseError s m h)"
    and "\<forall>m. fst (request env c rt kw) \<noteq> Raises (ValueError m)"
    by simp_all
next
  assume "\<exists>msg. fst (request env c rt kw) = Raises (RuntimeError msg)"
  then obtain msg where "fst (attempts 5 env (start_session c) (http_method rt) (url rt) (sent_kwargs c kw))
      = Raises (RuntimeError msg)"
    using assms by (auto simp add: request_open)
  from attempts_RuntimeError [OF this]
  show "\<forall>i<5. \<exists>r t. env i = Answered r t \<and> status r = 429"
    by simp
qed

theorem five_429_raise_RuntimeError_witness:
  "fst (request (replies [Answered (reply 429 ''slow down'') (seconds 1),
                          Answered (reply 429 ''slow down'') (seconds 63),
                          Answered (reply 429 ''slow down'') (seconds 125),
                          Answered (reply 429 ''slow down'') (seconds 187),
                          Answered (reply 429 ''slow down'') (seconds 249)]) demo_client demo_route no_kwargs)
     = Raises (RuntimeError ''Unreachable code in HTTP handling.'')
   \<and> length (filter is_Sent (snd (snd (request
        (replies [Answered (reply 429 ''slow down'') (seconds 1),
                  Answered (reply 429 ''slow down'') (seconds 63),
                  Answered (reply 429 ''slow down'') (seconds 125),
                  Answered (reply 429 ''slow down'') (seconds 187),
                  Answered (reply 429 ''slow down'') (seconds 249)]) demo_client demo_route no_kwargs)))) = 5"
proof -
  have g: "ratelimit_unlock demo_client"
    by (simp add: demo_client_def HTTPClient_init_def)
  have e: "\<forall>i<5. \<exists>r t. replies [Answered (reply 429 ''slow down'') (seconds 1),
                          Answered (reply 429 ''slow down'') (seconds 63),
                          Answered (reply 429 ''slow down'') (seconds 125),
                          Answered (reply 429 ''slow down'') (seconds 187),
                          Answered (reply 429 ''slow down'') (seconds 249)] i = Answered r t \<and> status r = 429"
    by (simp add: replies_def reply_def nth_Cons split: nat.splits)
  from five_429_raise_RuntimeError [OF g, of _ demo_route no_kwargs] e show ?thesis
    by blast
qed

end
